theory Spec2Isabelle
  imports Main "HOL-Library.AList" "HOL-Library.Sublist"
begin

unbundle bit_operations_syntax

section \<open>Python values and exceptions\<close>

text \<open>
  The program is \<^verbatim>\<open>rupert.py\<close>: the class \<^verbatim>\<open>Synapse\<close>, a thin layer over the
  \<^verbatim>\<open>confluent_kafka\<close> client that is configured from a JSON settings file.

  A value produced by \<^verbatim>\<open>json.loads\<close> is a \<open>json\<close>. A Python \<^verbatim>\<open>dict\<close> is an
  association list in insertion order (its keys are distinct in Python; lookup is
  \<open>map_of\<close>). A Python \<^verbatim>\<open>str\<close> is written as the list of the bytes of its UTF-8
  encoding, and \<^verbatim>\<open>bytes\<close> as the list of its bytes. A float is kept as the literal
  it was read from: no operation of the program looks into one.
\<close>

type_synonym bytes = string

datatype json =
    JNull
  | JBool bool
  | JInt int
  | JFloat string
  | JStr string
  | JArr "json list"
  | JObj "(string \<times> json) list"

text \<open>The exceptions that the code, the built-ins and the client library raise.\<close>

datatype py_error =
    KeyError string
  | TypeError
  | AttributeError
  | UnicodeDecodeError
  | OSError
  | JSONDecodeError
  | SystemExit
  | BufferError
  | KafkaException
  | NotImplementedError
  | RuntimeError

text \<open>\<^verbatim>\<open>obj[key]\<close> for a string key: only a dict can be subscripted by a string, and
  a missing key raises \<^verbatim>\<open>KeyError\<close>.\<close>

fun getitem :: "json \<Rightarrow> string \<Rightarrow> py_error + json" where
  "getitem (JObj d) key = (case map_of d key of None \<Rightarrow> Inl (KeyError key) | Some v \<Rightarrow> Inr v)"
| "getitem _ key = Inl TypeError"

text \<open>\<^verbatim>\<open>obj[key] = v\<close> for a string key: a dict replaces the value of a key it has, in
  place, and appends a key it does not have; nothing else takes a string key.\<close>

fun setitem :: "json \<Rightarrow> string \<Rightarrow> json \<Rightarrow> py_error + json" where
  "setitem (JObj d) key v = Inr (JObj (AList.update key v d))"
| "setitem _ key v = Inl TypeError"

text \<open>\<^verbatim>\<open>a | b\<close> on two dicts (Python 3.9 and later): a new dict with the keys of \<open>a\<close>
  in their order, each bound to the value \<open>b\<close> gives it when \<open>b\<close> has the key,
  followed by the keys that only \<open>b\<close> has.\<close>

definition dict_or :: "(string \<times> json) list \<Rightarrow> (string \<times> json) list \<Rightarrow> (string \<times> json) list" where
  "dict_or a b =
     map (\<lambda>(k, v). (k, case map_of b k of None \<Rightarrow> v | Some w \<Rightarrow> w)) a
     @ filter (\<lambda>(k, v). map_of a k = None) b"

text \<open>The operator \<^verbatim>\<open>|\<close> on the values \<^verbatim>\<open>json.loads\<close> can produce: the union of two
  dicts, the bitwise or of two integers (\<^verbatim>\<open>bool\<close> is an integer type, and the or of
  two of them is a \<^verbatim>\<open>bool\<close>), and \<^verbatim>\<open>TypeError\<close> for every other pair.\<close>

fun py_or :: "json \<Rightarrow> json \<Rightarrow> py_error + json" where
  "py_or (JObj a) (JObj b) = Inr (JObj (dict_or a b))"
| "py_or (JBool a) (JBool b) = Inr (JBool (a \<or> b))"
| "py_or (JBool a) (JInt j) = Inr (JInt (of_bool a OR j))"
| "py_or (JInt i) (JBool b) = Inr (JInt (i OR of_bool b))"
| "py_or (JInt i) (JInt j) = Inr (JInt (i OR j))"
| "py_or _ _ = Inl TypeError"

text \<open>\<^verbatim>\<open>b.decode('utf-8')\<close> (strict): the bytes must be well-formed UTF-8, which
  excludes stray continuation bytes, truncated sequences, overlong forms, the
  surrogates and code points above \<^verbatim>\<open>U+10FFFF\<close>. The decoded \<^verbatim>\<open>str\<close> is written as
  its UTF-8 encoding, that is, as the same bytes.\<close>

definition cont :: "nat \<Rightarrow> bool" where
  "cont b = (128 \<le> b \<and> b \<le> 191)"

fun utf8 :: "nat list \<Rightarrow> bool" where
  "utf8 [] = True"
| "utf8 (a # bs) =
     (if a < 128 then utf8 bs
      else if 194 \<le> a \<and> a \<le> 223 then
        (case bs of b # r \<Rightarrow> cont b \<and> utf8 r | _ \<Rightarrow> False)
      else if 224 \<le> a \<and> a \<le> 239 then
        (case bs of b # c # r \<Rightarrow>
           (if a = 224 then 160 \<le> b \<and> b \<le> 191
            else if a = 237 then 128 \<le> b \<and> b \<le> 159
            else cont b) \<and> cont c \<and> utf8 r
         | _ \<Rightarrow> False)
      else if 240 \<le> a \<and> a \<le> 244 then
        (case bs of b # c # d # r \<Rightarrow>
           (if a = 240 then 144 \<le> b \<and> b \<le> 191
            else if a = 244 then 128 \<le> b \<and> b \<le> 143
            else cont b) \<and> cont c \<and> cont d \<and> utf8 r
         | _ \<Rightarrow> False)
      else False)"

definition decode :: "bytes \<Rightarrow> py_error + string" where
  "decode b = (if utf8 (map of_char b) then Inr b else Inl UnicodeDecodeError)"

section \<open>The world outside the program\<close>

text \<open>
  Reading the settings file: \<^verbatim>\<open>open\<close>, \<^verbatim>\<open>read\<close> and \<^verbatim>\<open>json.loads\<close> on a path either
  raise (\<open>OSError\<close> for a file that cannot be opened, \<open>JSONDecodeError\<close> for text
  that is not JSON) or give the parsed document. The file can change between two
  reads, so every operation that reads it takes the file system of its moment.
\<close>

type_synonym filesystem = "string \<Rightarrow> py_error + json"

text \<open>A message of the broker: \<^verbatim>\<open>value()\<close> is its payload (or \<^verbatim>\<open>None\<close>), \<^verbatim>\<open>error()\<close> is
  \<^verbatim>\<open>None\<close> or a \<^verbatim>\<open>KafkaError\<close>, given here by its code.\<close>

datatype KafkaError = KafkaError int

record message =
  msg_value :: "bytes option"
  msg_error :: "KafkaError option"

text \<open>What one \<^verbatim>\<open>consumer.poll\<close> gives: \<^verbatim>\<open>None\<close> after the timeout, a message, or an
  exception.\<close>

datatype poll_result = NoMessage | Message message | PollRaises py_error

datatype printed = Str string | Err KafkaError

text \<open>
  Every action of the program on the outside world, in the order it happens. The
  timeouts and the delay are in seconds. A call of the hook \<^verbatim>\<open>process_event\<close> by the
  loop is one effect that holds the effects of the hook's body.
\<close>

datatype effect =
    Producer json
  | produce json bytes
  | producer_poll nat
  | flush
  | Consumer json
  | subscribe "json list"
  | consumer_poll nat poll_result
  | close
  | print printed
  | sleep nat
  | process_event_call message "effect list"

text \<open>The client library is a parameter: for each call of the library other than
  \<^verbatim>\<open>consumer.poll\<close> it says which exception the call raises, if any.\<close>

type_synonym kafka = "effect \<Rightarrow> py_error option"

text \<open>How a method ends: it returns, it raises, or (for the endless loop of
  \<^verbatim>\<open>listen\<close>) it is still running when the answers of the broker run out.\<close>

datatype outcome = Returns | Raises py_error | Running

section \<open>The class Synapse\<close>

text \<open>The attributes of an instance. \<open>consumer\<close> is \<^verbatim>\<open>None\<close> or the consumer handle,
  given by the configuration it was opened with.\<close>

record Synapse =
  settings_file :: string
  settings :: json
  consumer_cfg :: json
  consumer :: "json option"
  close_consumer :: bool

type_synonym 'a run = "effect list \<times> 'a \<times> outcome"

text \<open>\<^verbatim>\<open>__load_settings\<close> reads the file at \<^verbatim>\<open>self.settings_file\<close> and binds
  \<^verbatim>\<open>self.settings\<close> to the parsed document; the function gives the value to bind.\<close>

definition load_settings :: "filesystem \<Rightarrow> string \<Rightarrow> py_error + json" where
  "load_settings fs path = fs path"

text \<open>\<^verbatim>\<open>self.settings['kafka'][name]\<close>\<close>

definition kafka_section :: "json \<Rightarrow> string \<Rightarrow> py_error + json" where
  "kafka_section st name =
     (case getitem st ''kafka'' of Inl e \<Rightarrow> Inl e | Inr k \<Rightarrow> getitem k name)"

text \<open>\<^verbatim>\<open>self.settings['kafka']['topics'][topic]\<close>\<close>

definition topic_of :: "json \<Rightarrow> string \<Rightarrow> py_error + json" where
  "topic_of st topic =
     (case kafka_section st ''topics'' of Inl e \<Rightarrow> Inl e | Inr ts \<Rightarrow> getitem ts topic)"

text \<open>\<^verbatim>\<open>__init__\<close>: an exception leaves no instance.\<close>

definition init :: "filesystem \<Rightarrow> string \<Rightarrow> py_error + Synapse" where
  "init fs path =
     (case load_settings fs path of
        Inl e \<Rightarrow> Inl e
      | Inr loaded \<Rightarrow>
     (case setitem loaded ''settings_file'' (JStr path) of
        Inl e \<Rightarrow> Inl e
      | Inr st \<Rightarrow>
     (case kafka_section st ''connection'' of
        Inl e \<Rightarrow> Inl e
      | Inr conn \<Rightarrow>
     (case kafka_section st ''consumer'' of
        Inl e \<Rightarrow> Inl e
      | Inr cons \<Rightarrow>
     (case py_or conn cons of
        Inl e \<Rightarrow> Inl e
      | Inr cfg \<Rightarrow>
          Inr \<lparr>settings_file = path, settings = st, consumer_cfg = cfg,
               consumer = None, close_consumer = False\<rparr>)))))"

definition stop :: "Synapse \<Rightarrow> Synapse run" where
  "stop s = ([], s\<lparr>close_consumer := True\<rparr>, Returns)"

text \<open>The default \<^verbatim>\<open>process_event\<close>. \<^verbatim>\<open>value()\<close> of a message without payload is
  \<^verbatim>\<open>None\<close>, which has no \<^verbatim>\<open>decode\<close>.\<close>

definition process_event :: "Synapse \<Rightarrow> message \<Rightarrow> Synapse run" where
  "process_event s m =
     (case msg_value m of
        None \<Rightarrow> ([], s, Raises AttributeError)
      | Some b \<Rightarrow>
     (case decode b of
        Inl e \<Rightarrow> ([], s, Raises e)
      | Inr t \<Rightarrow>
     (case stop s of
        (es, s', out) \<Rightarrow> ([print (Str t), sleep 10] @ es, s', out))))"

definition reload :: "filesystem \<Rightarrow> Synapse \<Rightarrow> Synapse run" where
  "reload fs s =
     (case load_settings fs (settings_file s) of
        Inl e \<Rightarrow> ([], s, Raises e)
      | Inr loaded \<Rightarrow> ([], s\<lparr>settings := loaded\<rparr>, Returns))"

definition send :: "kafka \<Rightarrow> Synapse \<Rightarrow> string \<Rightarrow> bytes \<Rightarrow> Synapse run" where
  "send k s topic event_bytes =
     (case kafka_section (settings s) ''connection'' of
        Inl e \<Rightarrow> ([], s, Raises e)
      | Inr conn \<Rightarrow>
     (case k (Producer conn) of
        Some e \<Rightarrow> ([Producer conn], s, Raises e)
      | None \<Rightarrow>
     (case topic_of (settings s) topic of
        Inl e \<Rightarrow> ([Producer conn], s, Raises e)
      | Inr t \<Rightarrow>
     (case k (produce t event_bytes) of
        Some e \<Rightarrow> ([Producer conn, produce t event_bytes], s, Raises e)
      | None \<Rightarrow>
     (case k (producer_poll 10000) of
        Some e \<Rightarrow>
          ([Producer conn, produce t event_bytes, producer_poll 10000], s, Raises e)
      | None \<Rightarrow>
     (case k flush of
        Some e \<Rightarrow>
          ([Producer conn, produce t event_bytes, producer_poll 10000, flush], s, Raises e)
      | None \<Rightarrow>
          ([Producer conn, produce t event_bytes, producer_poll 10000, flush], s,
           Returns)))))))"

text \<open>
  The broker, as \<^verbatim>\<open>send\<close> meets it through the client library: which calls of the
  library raise, and the delivery report of a produced message, \<^verbatim>\<open>None\<close> when the broker
  acknowledged the message and the error when it did not. The library raises no
  exception for a report: it hands the report to the \<^verbatim>\<open>on_delivery\<close> callback given to
  \<^verbatim>\<open>produce\<close>, and counts it in what \<^verbatim>\<open>poll\<close> and \<^verbatim>\<open>flush\<close> return. \<^verbatim>\<open>send\<close> gives
  \<^verbatim>\<open>produce\<close> no callback (line 101) and drops what \<^verbatim>\<open>poll\<close> and \<^verbatim>\<open>flush\<close> return (lines
  102 and 103), so of the broker only the exceptions reach it.
\<close>

record broker =
  raises :: kafka
  report :: "KafkaError option"

definition send_to_broker :: "broker \<Rightarrow> Synapse \<Rightarrow> string \<Rightarrow> bytes \<Rightarrow> Synapse run" where
  "send_to_broker br s topic event_bytes = send (raises br) s topic event_bytes"

text \<open>
  The loop of \<^verbatim>\<open>listen\<close>. The hook \<^verbatim>\<open>process_event\<close> is a parameter, since a subclass
  overrides it. The answers of the broker to the successive polls are a list; the
  loop is \<open>Running\<close> when it asks for more than the list holds. \<^verbatim>\<open>sys.exit()\<close> raises
  \<open>SystemExit\<close>.
\<close>

type_synonym hook = "Synapse \<Rightarrow> message \<Rightarrow> Synapse run"

definition after :: "effect list \<Rightarrow> Synapse run \<Rightarrow> Synapse run" where
  "after es r = (case r of (es', s, out) \<Rightarrow> (es @ es', s, out))"

fun listen_loop :: "kafka \<Rightarrow> hook \<Rightarrow> Synapse \<Rightarrow> poll_result list \<Rightarrow> Synapse run" where
  "listen_loop k h s polls =
     (if close_consumer s then
        (case k close of
           Some e \<Rightarrow> ([close], s, Raises e)
         | None \<Rightarrow> ([close], s, Raises SystemExit))
      else
        (case polls of
           [] \<Rightarrow> ([], s, Running)
         | PollRaises e # rest \<Rightarrow> ([consumer_poll 1 (PollRaises e)], s, Raises e)
         | NoMessage # rest \<Rightarrow> after [consumer_poll 1 NoMessage] (listen_loop k h s rest)
         | Message m # rest \<Rightarrow>
             (case msg_error m of
                Some err \<Rightarrow>
                  after [consumer_poll 1 (Message m), print (Err err)] (listen_loop k h s rest)
              | None \<Rightarrow>
                  (case h s m of
                     (es, s', Returns) \<Rightarrow>
                       after [consumer_poll 1 (Message m), process_event_call m es]
                         (listen_loop k h s' rest)
                   | (es, s', out) \<Rightarrow>
                       ([consumer_poll 1 (Message m), process_event_call m es], s', out)))))"

definition listen :: "kafka \<Rightarrow> hook \<Rightarrow> Synapse \<Rightarrow> string \<Rightarrow> poll_result list \<Rightarrow> Synapse run" where
  "listen k h s topic polls =
     (case k (Consumer (consumer_cfg s)) of
        Some e \<Rightarrow> ([Consumer (consumer_cfg s)], s, Raises e)
      | None \<Rightarrow>
     (case topic_of (settings s) topic of
        Inl e \<Rightarrow> ([Consumer (consumer_cfg s)], s\<lparr>consumer := Some (consumer_cfg s)\<rparr>, Raises e)
      | Inr t \<Rightarrow>
     (case k (subscribe [t]) of
        Some e \<Rightarrow>
          ([Consumer (consumer_cfg s), subscribe [t]],
           s\<lparr>consumer := Some (consumer_cfg s)\<rparr>, Raises e)
      | None \<Rightarrow>
          after [Consumer (consumer_cfg s), subscribe [t]]
            (listen_loop k h (s\<lparr>consumer := Some (consumer_cfg s)\<rparr>) polls))))"

section \<open>Reading a run\<close>

text \<open>What a list of effects holds, in order: the messages the polls gave, the
  messages the loop handed to the hook, the broker errors it printed, and the
  subscriptions it made.\<close>

fun polled :: "effect list \<Rightarrow> message list" where
  "polled [] = []"
| "polled (consumer_poll t (Message m) # es) = m # polled es"
| "polled (_ # es) = polled es"

fun handled :: "effect list \<Rightarrow> message list" where
  "handled [] = []"
| "handled (process_event_call m hs # es) = m # handled es"
| "handled (_ # es) = handled es"

fun logged :: "effect list \<Rightarrow> KafkaError list" where
  "logged [] = []"
| "logged (print (Err e) # es) = e # logged es"
| "logged (_ # es) = logged es"

fun subscribed :: "effect list \<Rightarrow> json list list" where
  "subscribed [] = []"
| "subscribed (subscribe ts # es) = ts # subscribed es"
| "subscribed (_ # es) = subscribed es"

text \<open>The messages among the answers of the broker.\<close>

fun messages :: "poll_result list \<Rightarrow> message list" where
  "messages [] = []"
| "messages (Message m # ps) = m # messages ps"
| "messages (_ # ps) = messages ps"

section \<open>Concrete inputs\<close>

text \<open>The settings
  \<^verbatim>\<open>{"kafka":{"connection":{},"consumer":{"group.id":g},"topics":{"in":t,"out":"topic-out"}}}\<close>.\<close>

definition settings_json :: "string \<Rightarrow> string \<Rightarrow> json" where
  "settings_json g t =
     JObj [(''kafka'', JObj
       [(''connection'', JObj []),
        (''consumer'', JObj [(''group.id'', JStr g)]),
        (''topics'', JObj [(''in'', JStr t), (''out'', JStr ''topic-out'')])])]"

text \<open>A file system whose only file is \<^verbatim>\<open>settings.json\<close>, holding these settings.\<close>

definition settings_fs :: "string \<Rightarrow> string \<Rightarrow> filesystem" where
  "settings_fs g t path =
     (if path = ''settings.json'' then Inr (settings_json g t) else Inl OSError)"

text \<open>The instance that \<^verbatim>\<open>Synapse('settings.json')\<close> constructs from them.\<close>

definition synapse_of :: "string \<Rightarrow> string \<Rightarrow> Synapse" where
  "synapse_of g t =
     \<lparr>settings_file = ''settings.json'',
      settings = JObj [(''kafka'', JObj
         [(''connection'', JObj []),
          (''consumer'', JObj [(''group.id'', JStr g)]),
          (''topics'', JObj [(''in'', JStr t), (''out'', JStr ''topic-out'')])]),
        (''settings_file'', JStr ''settings.json'')],
      consumer_cfg = JObj [(''group.id'', JStr g)],
      consumer = None,
      close_consumer = False\<rparr>"

text \<open>A client library none of whose calls raises, and one whose \<^verbatim>\<open>produce\<close> finds
  the queue full.\<close>

definition kafka_ok :: kafka where
  "kafka_ok call = None"

definition kafka_full :: kafka where
  "kafka_full call = (case call of produce t b \<Rightarrow> Some BufferError | _ \<Rightarrow> None)"

text \<open>Two messages: one with a payload and no error, one with a broker error.\<close>

definition msg_hello :: message where
  "msg_hello = \<lparr>msg_value = Some ''hello'', msg_error = None\<rparr>"

definition msg_failed :: message where
  "msg_failed = \<lparr>msg_value = None, msg_error = Some (KafkaError 3)\<rparr>"

text \<open>A message without broker error whose payload, the byte \<^verbatim>\<open>0xFF\<close>, is not UTF-8.\<close>

definition msg_garbled :: message where
  "msg_garbled = \<lparr>msg_value = Some [CHR 0xFF], msg_error = None\<rparr>"

text \<open>Three brokers: one that acknowledges, one for which \<^verbatim>\<open>produce\<close> finds the queue
  full, and one that never acknowledges, so that the message times out, while no call
  of the library raises.\<close>

definition broker_ok :: broker where
  "broker_ok = \<lparr>raises = kafka_ok, report = None\<rparr>"

definition broker_full :: broker where
  "broker_full = \<lparr>raises = kafka_full, report = Some (KafkaError (- 184))\<rparr>"

definition broker_lost :: broker where
  "broker_lost = \<lparr>raises = kafka_ok, report = Some (KafkaError (- 192))\<rparr>"

text \<open>Settings in which \<^verbatim>\<open>client.id\<close> is a key of both \<^verbatim>\<open>kafka.connection\<close> and
  \<^verbatim>\<open>kafka.consumer\<close>, and a file system that holds them at every path.\<close>

definition overlap_json :: json where
  "overlap_json =
     JObj [(''kafka'', JObj
       [(''connection'', JObj [(''bootstrap.servers'', JStr ''broker:9092''),
                               (''client.id'', JStr ''base'')]),
        (''consumer'', JObj [(''client.id'', JStr ''reader''), (''group.id'', JStr ''g'')]),
        (''topics'', JObj [])])]"

definition overlap_fs :: filesystem where
  "overlap_fs path = Inr overlap_json"

text \<open>The four calls of the client library that \<^verbatim>\<open>send("out", b"hello")\<close> makes on these
  settings, in order.\<close>

definition send_calls :: "effect list" where
  "send_calls =
     [Producer (JObj []), produce (JStr ''topic-out'') ''hello'', producer_poll 10000, flush]"

section \<open>Properties\<close>

declare listen_loop.simps [simp del]

subsection \<open>Dictionaries, construction and the loop\<close>

text \<open>Looking a key up in \<^verbatim>\<open>a | b\<close>: the value of \<open>b\<close> when \<open>b\<close> has the key, that of
  \<open>a\<close> otherwise.\<close>

lemma map_of_dict_or:
  "map_of (dict_or a b) key = (case map_of b key of None \<Rightarrow> map_of a key | Some w \<Rightarrow> Some w)"
proof -
  have l: "map_of (map (\<lambda>(k, v). (k, case map_of b k of None \<Rightarrow> v | Some w \<Rightarrow> w)) a) key
      = (case map_of a key of None \<Rightarrow> None
         | Some v \<Rightarrow> Some (case map_of b key of None \<Rightarrow> v | Some w \<Rightarrow> w))"
    by (induction a) (auto split: option.splits)
  have r: "map_of (filter (\<lambda>(k, v). map_of a k = None) b) key
      = (if map_of a key = None then map_of b key else None)"
    by (induction b) auto
  show ?thesis
    unfolding dict_or_def map_of_append map_add_def l r
    by (auto split: option.splits)
qed

text \<open>Binding \<^verbatim>\<open>settings_file\<close> does not touch the section \<^verbatim>\<open>kafka\<close>; construction leaves
  the key bound to the path; \<^verbatim>\<open>reload\<close> binds the settings to the document of the file
  and changes nothing else.\<close>

lemma kafka_section_setitem:
  "setitem d ''settings_file'' v = Inr st \<Longrightarrow> kafka_section st name = kafka_section d name"
  by (cases d) (auto simp: kafka_section_def update_conv')

lemma init_settings_file:
  "init fs path = Inr s \<Longrightarrow> getitem (settings s) ''settings_file'' = Inr (JStr path)"
  unfolding init_def
  by (cases "fs path"; cases "projr (fs path)")
     (auto simp: load_settings_def update_conv' split: sum.splits)

lemma reload_replaces_settings:
  "fs (settings_file s) = Inr d \<Longrightarrow> reload fs s = ([], s\<lparr>settings := d\<rparr>, Returns)"
  by (simp add: reload_def load_settings_def)

lemma init_example: "init (settings_fs g t) ''settings.json'' = Inr (synapse_of g t)"
  by (simp add: init_def load_settings_def settings_fs_def settings_json_def synapse_of_def
      kafka_section_def dict_or_def)

text \<open>The loop: what an iteration does when the flag is set, and what every run of
  the loop polls, hands over and prints.\<close>

lemma listen_loop_stopped:
  "close_consumer s \<Longrightarrow>
   listen_loop k h s polls =
     ([close], s, Raises (case k close of Some e \<Rightarrow> e | None \<Rightarrow> SystemExit))"
  by (simp add: listen_loop.simps split: option.splits)

lemma listen_loop_reads:
  "case listen_loop k h s polls of (es, s', out) \<Rightarrow>
     handled es = filter (\<lambda>m. msg_error m = None) (polled es) \<and>
     logged es = List.map_filter msg_error (polled es) \<and>
     subscribed es = [] \<and>
     prefix (polled es) (messages polls)"
proof (induction k h s polls rule: listen_loop.induct)
  case (1 k h s polls)
  show ?case
  proof (cases "close_consumer s")
    case True
    then show ?thesis by (simp add: listen_loop_stopped)
  next
    case False
    show ?thesis
    proof (cases polls)
      case Nil
      with False show ?thesis by (simp add: listen_loop.simps)
    next
      case (Cons p rest)
      show ?thesis
      proof (cases p)
        case NoMessage
        with 1(1)[OF False Cons NoMessage] False Cons show ?thesis
          by (simp add: listen_loop.simps [of k h s] after_def split: prod.splits)
      next
        case (PollRaises e)
        with False Cons show ?thesis
          by (simp add: listen_loop.simps [of k h s])
      next
        case (Message m)
        show ?thesis
        proof (cases "msg_error m")
          case (Some err)
          with 1(3)[OF False Cons Message Some] False Cons Message show ?thesis
            by (simp add: listen_loop.simps [of k h s] after_def split: prod.splits)
        next
          case None
          obtain hes s' out where h: "h s m = (hes, s', out)" by (cases "h s m") auto
          show ?thesis
          proof (cases out)
            case Returns
            with 1(2)[OF False Cons Message None h[symmetric] refl] h False Cons Message None
            show ?thesis
              by (simp add: listen_loop.simps [of k h s] after_def split: prod.splits)
          next
            case (Raises e)
            with h False Cons Message None show ?thesis
              by (simp add: listen_loop.simps [of k h s])
          next
            case Running
            with h False Cons Message None show ?thesis
              by (simp add: listen_loop.simps [of k h s])
          qed
        qed
      qed
    qed
  qed
qed

subsection \<open>Sending\<close>

text \<open>
  C1 (as amended). Let \<^verbatim>\<open>kafka.topics\<close> be a mapping that does not have the topic name.
  Then \<^verbatim>\<open>send\<close> always raises, leaves the instance as it was, and never calls
  \<^verbatim>\<open>produce\<close>, \<^verbatim>\<open>poll\<close> or \<^verbatim>\<open>flush\<close>. When \<^verbatim>\<open>kafka.connection\<close> is present, a producer
  is opened from it before the topic is looked up, and the exception is
  \<^verbatim>\<open>KeyError(topic)\<close> unless the constructor of the producer raised its own; when it is
  absent the exception is \<^verbatim>\<open>KeyError('connection')\<close> and no producer is opened.
\<close>

theorem send_unknown_topic:
  assumes "kafka_section (settings s) ''topics'' = Inr (JObj ts)" and "map_of ts topic = None"
  shows "send k s topic event_bytes =
     (case kafka_section (settings s) ''connection'' of
        Inl e \<Rightarrow> ([], s, Raises (KeyError ''connection''))
      | Inr conn \<Rightarrow>
          ([Producer conn], s,
           Raises (case k (Producer conn) of Some e \<Rightarrow> e | None \<Rightarrow> KeyError topic)))"
proof -
  from assms(1) obtain kf where kf: "getitem (settings s) ''kafka'' = Inr (JObj kf)"
    by (cases "getitem (settings s) ''kafka''"; cases "projr (getitem (settings s) ''kafka'')")
       (auto simp: kafka_section_def)
  from assms have t: "topic_of (settings s) topic = Inl (KeyError topic)"
    by (simp add: topic_of_def)
  show ?thesis
    by (simp add: send_def t kafka_section_def kf split: option.splits sum.splits)
qed

text \<open>On the settings of the scenario and the unknown name \<^verbatim>\<open>nope\<close>.\<close>

theorem send_unknown_topic_witness:
  "kafka_section (settings (synapse_of ''g'' ''topic-in'')) ''topics''
     = Inr (JObj [(''in'', JStr ''topic-in''), (''out'', JStr ''topic-out'')]) \<and>
   map_of [(''in'', JStr ''topic-in''), (''out'', JStr ''topic-out'')] ''nope'' = None \<and>
   send kafka_full (synapse_of ''g'' ''topic-in'') ''nope'' ''hello'' =
     ([Producer (JObj [])], synapse_of ''g'' ''topic-in'', Raises (KeyError ''nope''))"
proof -
  have a: "kafka_section (settings (synapse_of ''g'' ''topic-in'')) ''topics''
     = Inr (JObj [(''in'', JStr ''topic-in''), (''out'', JStr ''topic-out'')])"
    by (simp add: synapse_of_def kafka_section_def)
  have b: "map_of [(''in'', JStr ''topic-in''), (''out'', JStr ''topic-out'')] ''nope'' = None"
    by simp
  have c: "kafka_section (settings (synapse_of ''g'' ''topic-in'')) ''connection'' = Inr (JObj [])"
    by (simp add: synapse_of_def kafka_section_def)
  from send_unknown_topic [OF a b, of kafka_full "''hello''"] a b show ?thesis
    by (simp add: c kafka_full_def)
qed

text \<open>The instance constructed from the settings of the scenario has no topic
  \<^verbatim>\<open>nope\<close>; sending to it opens a producer and then raises \<^verbatim>\<open>KeyError\<close>. So it is not
  true that no producer handle is opened.\<close>

theorem send_unknown_topic_opens_producer:
  "init (settings_fs ''g'' ''topic-in'') ''settings.json'' = Inr (synapse_of ''g'' ''topic-in'') \<and>
   topic_of (settings (synapse_of ''g'' ''topic-in'')) ''nope'' = Inl (KeyError ''nope'') \<and>
   send kafka_ok (synapse_of ''g'' ''topic-in'') ''nope'' ''hello'' =
     ([Producer (JObj [])], synapse_of ''g'' ''topic-in'', Raises (KeyError ''nope'')) \<and>
   Producer (JObj []) \<in> set (fst (send kafka_ok (synapse_of ''g'' ''topic-in'') ''nope'' ''hello''))"
  by (simp add: init_example send_def topic_of_def kafka_section_def synapse_of_def kafka_ok_def)

text \<open>
  C8 (as amended). On an instance constructed from the settings of the scenario,
  \<^verbatim>\<open>send("out", b"hello")\<close> against any broker makes these calls in this order: it
  opens a producer from \<^verbatim>\<open>kafka.connection\<close> (the empty mapping), produces the payload
  \<^verbatim>\<open>hello\<close> to \<^verbatim>\<open>topic-out\<close>, polls with a timeout of 10000 and flushes. It returns when
  none of them raises, whatever the delivery report of the broker is; otherwise it
  stops at the first call that raises and raises that call's exception. The
  instance is unchanged.
\<close>

theorem send_out_hello:
  assumes "fs path = Inr (settings_json ''g'' ''topic-in'')"
  shows "\<exists>s. init fs path = Inr s \<and>
     send_to_broker br s ''out'' ''hello'' =
       (case find (\<lambda>c. raises br c \<noteq> None) send_calls of
          None \<Rightarrow> (send_calls, s, Returns)
        | Some c \<Rightarrow>
            (takeWhile (\<lambda>c. raises br c = None) send_calls @ [c], s,
             case raises br c of Some e \<Rightarrow> Raises e | None \<Rightarrow> Returns))"
proof -
  define s where "s = \<lparr>settings_file = path,
      settings = JObj [(''kafka'', JObj
         [(''connection'', JObj []),
          (''consumer'', JObj [(''group.id'', JStr ''g'')]),
          (''topics'', JObj [(''in'', JStr ''topic-in''), (''out'', JStr ''topic-out'')])]),
        (''settings_file'', JStr path)],
      consumer_cfg = JObj [(''group.id'', JStr ''g'')],
      consumer = None, close_consumer = False\<rparr>"
  have i: "init fs path = Inr s"
    by (simp add: init_def load_settings_def assms settings_json_def kafka_section_def
        dict_or_def s_def)
  have c: "kafka_section (settings s) ''connection'' = Inr (JObj [])"
    by (simp add: s_def kafka_section_def)
  have t: "topic_of (settings s) ''out'' = Inr (JStr ''topic-out'')"
    by (simp add: s_def topic_of_def kafka_section_def)
  have "send_to_broker br s ''out'' ''hello'' =
       (case find (\<lambda>c. raises br c \<noteq> None) send_calls of
          None \<Rightarrow> (send_calls, s, Returns)
        | Some c \<Rightarrow>
            (takeWhile (\<lambda>c. raises br c = None) send_calls @ [c], s,
             case raises br c of Some e \<Rightarrow> Raises e | None \<Rightarrow> Returns))"
    by (simp add: send_to_broker_def send_def c t send_calls_def split: option.splits)
  with i show ?thesis by blast
qed

text \<open>With a broker that acknowledges, and with one for which the queue is full.\<close>

theorem send_out_hello_witness:
  "settings_fs ''g'' ''topic-in'' ''settings.json'' = Inr (settings_json ''g'' ''topic-in'') \<and>
   init (settings_fs ''g'' ''topic-in'') ''settings.json'' = Inr (synapse_of ''g'' ''topic-in'') \<and>
   send_to_broker broker_ok (synapse_of ''g'' ''topic-in'') ''out'' ''hello'' =
     ([Producer (JObj []), produce (JStr ''topic-out'') ''hello'', producer_poll 10000, flush],
      synapse_of ''g'' ''topic-in'', Returns) \<and>
   send_to_broker broker_full (synapse_of ''g'' ''topic-in'') ''out'' ''hello'' =
     ([Producer (JObj []), produce (JStr ''topic-out'') ''hello''],
      synapse_of ''g'' ''topic-in'', Raises BufferError)"
proof -
  have f: "settings_fs ''g'' ''topic-in'' ''settings.json'' = Inr (settings_json ''g'' ''topic-in'')"
    by (simp add: settings_fs_def)
  from send_out_hello [where fs = "settings_fs ''g'' ''topic-in''" and path = "''settings.json''",
      OF f, of broker_ok]
  have 1: "send_to_broker broker_ok (synapse_of ''g'' ''topic-in'') ''out'' ''hello'' =
     ([Producer (JObj []), produce (JStr ''topic-out'') ''hello'', producer_poll 10000, flush],
      synapse_of ''g'' ''topic-in'', Returns)"
    by (simp add: init_example send_calls_def broker_ok_def kafka_ok_def)
  from send_out_hello [where fs = "settings_fs ''g'' ''topic-in''" and path = "''settings.json''",
      OF f, of broker_full]
  have 2: "send_to_broker broker_full (synapse_of ''g'' ''topic-in'') ''out'' ''hello'' =
     ([Producer (JObj []), produce (JStr ''topic-out'') ''hello''],
      synapse_of ''g'' ''topic-in'', Raises BufferError)"
    by (simp add: init_example send_calls_def broker_full_def kafka_full_def)
  from f 1 2 show ?thesis by (simp add: init_example)
qed

text \<open>The broker never acknowledges the message and no call of the library raises:
  \<^verbatim>\<open>send\<close> makes its four calls and returns. So it is not true that \<^verbatim>\<open>send\<close> fails
  whenever the broker does not acknowledge.\<close>

theorem send_returns_when_not_acknowledged:
  "init (settings_fs ''g'' ''topic-in'') ''settings.json'' = Inr (synapse_of ''g'' ''topic-in'') \<and>
   report broker_lost = Some (KafkaError (- 192)) \<and>
   send_to_broker broker_lost (synapse_of ''g'' ''topic-in'') ''out'' ''hello'' =
     ([Producer (JObj []), produce (JStr ''topic-out'') ''hello'', producer_poll 10000, flush],
      synapse_of ''g'' ''topic-in'', Returns)"
  by (simp add: init_example send_to_broker_def broker_lost_def send_def topic_of_def
      kafka_section_def synapse_of_def kafka_ok_def)

subsection \<open>Loading and reloading the settings\<close>

text \<open>
  C2. The code does not keep this invariant. Construction binds \<^verbatim>\<open>settings_file\<close> in
  the settings, but \<^verbatim>\<open>reload\<close> replaces the settings by the document of the file and
  does not bind the key again: after a reload of the very same file the key is
  missing.
\<close>

theorem reload_drops_settings_file:
  "init (settings_fs ''g'' ''topic-in'') ''settings.json'' = Inr (synapse_of ''g'' ''topic-in'') \<and>
   getitem (settings (synapse_of ''g'' ''topic-in'')) ''settings_file''
     = Inr (JStr ''settings.json'') \<and>
   reload (settings_fs ''g'' ''topic-in'') (synapse_of ''g'' ''topic-in'') =
     ([], (synapse_of ''g'' ''topic-in'')\<lparr>settings := settings_json ''g'' ''topic-in''\<rparr>,
      Returns) \<and>
   getitem (settings_json ''g'' ''topic-in'') ''settings_file''
     = Inl (KeyError ''settings_file'')"
  by (simp add: init_example reload_def load_settings_def settings_fs_def)
     (simp add: synapse_of_def settings_json_def)

text \<open>
  C3. The code does not do this. \<^verbatim>\<open>listen\<close> opens its consumer with the configuration
  merged at construction; \<^verbatim>\<open>reload\<close> does not merge it again. After the group of the
  consumer changes in the file from \<^verbatim>\<open>g\<close> to \<^verbatim>\<open>h\<close> and a reload, \<^verbatim>\<open>listen\<close> still opens
  the consumer with \<^verbatim>\<open>g\<close>, where an instance constructed from the new file uses \<^verbatim>\<open>h\<close>.
\<close>

theorem listen_after_reload_keeps_old_consumer_cfg:
  "init (settings_fs ''g'' ''topic-in'') ''settings.json'' = Inr (synapse_of ''g'' ''topic-in'') \<and>
   reload (settings_fs ''h'' ''topic-in'') (synapse_of ''g'' ''topic-in'') =
     ([], (synapse_of ''g'' ''topic-in'')\<lparr>settings := settings_json ''h'' ''topic-in''\<rparr>,
      Returns) \<and>
   kafka_section (settings_json ''h'' ''topic-in'') ''consumer''
     = Inr (JObj [(''group.id'', JStr ''h'')]) \<and>
   listen kafka_ok process_event
       ((synapse_of ''g'' ''topic-in'')\<lparr>settings := settings_json ''h'' ''topic-in''\<rparr>)
       ''in'' [] =
     ([Consumer (JObj [(''group.id'', JStr ''g'')]), subscribe [JStr ''topic-in'']],
      (synapse_of ''g'' ''topic-in'')
        \<lparr>settings := settings_json ''h'' ''topic-in'',
         consumer := Some (JObj [(''group.id'', JStr ''g'')])\<rparr>,
      Running) \<and>
   consumer_cfg (synapse_of ''h'' ''topic-in'') = JObj [(''group.id'', JStr ''h'')]"
  by (simp add: init_example reload_def load_settings_def settings_fs_def)
     (simp add: synapse_of_def settings_json_def kafka_section_def topic_of_def listen_def
       kafka_ok_def after_def listen_loop.simps)



subsection \<open>The merged consumer configuration\<close>

text \<open>
  C6. When the settings file holds a document whose \<^verbatim>\<open>kafka.connection\<close> and
  \<^verbatim>\<open>kafka.consumer\<close> are mappings, construction succeeds and the consumer
  configuration it computes is their union in which \<^verbatim>\<open>kafka.consumer\<close> wins: a key of
  \<^verbatim>\<open>kafka.consumer\<close> (whether or not \<^verbatim>\<open>kafka.connection\<close> has it too) is bound to the
  value \<^verbatim>\<open>kafka.consumer\<close> gives it, a key of \<^verbatim>\<open>kafka.connection\<close> alone keeps its
  value, and no other key is present.
\<close>

theorem consumer_cfg_consumer_wins:
  assumes "fs path = Inr d"
    and "kafka_section d ''connection'' = Inr (JObj a)"
    and "kafka_section d ''consumer'' = Inr (JObj b)"
  shows "\<exists>s. init fs path = Inr s \<and> consumer_cfg s = JObj (dict_or a b) \<and>
     getitem (consumer_cfg s) key =
       (case map_of b key of
          Some v \<Rightarrow> Inr v
        | None \<Rightarrow> (case map_of a key of Some u \<Rightarrow> Inr u | None \<Rightarrow> Inl (KeyError key)))"
proof -
  from assms(2) obtain top where d: "d = JObj top"
    by (cases d) (auto simp: kafka_section_def)
  then have st: "setitem d ''settings_file'' (JStr path)
      = Inr (JObj (AList.update ''settings_file'' (JStr path) top))"
    by simp
  note sec = kafka_section_setitem [OF st]
  have "init fs path =
      Inr \<lparr>settings_file = path,
           settings = JObj (AList.update ''settings_file'' (JStr path) top),
           consumer_cfg = JObj (dict_or a b), consumer = None, close_consumer = False\<rparr>"
    unfolding init_def load_settings_def
    by (simp add: assms(1) st sec assms(2,3) del: setitem.simps)
  then show ?thesis
    by (simp add: map_of_dict_or split: option.splits)
qed

text \<open>On the settings with a collision on \<^verbatim>\<open>client.id\<close>, the consumer's value wins and
  the keys of one side only keep their values.\<close>

theorem consumer_cfg_consumer_wins_witness:
  "overlap_fs ''settings.json'' = Inr overlap_json \<and>
   (\<exists>s. init overlap_fs ''settings.json'' = Inr s \<and>
        getitem (consumer_cfg s) ''client.id'' = Inr (JStr ''reader'') \<and>
        getitem (consumer_cfg s) ''group.id'' = Inr (JStr ''g'') \<and>
        getitem (consumer_cfg s) ''bootstrap.servers'' = Inr (JStr ''broker:9092'') \<and>
        getitem (consumer_cfg s) ''acks'' = Inl (KeyError ''acks''))"
proof -
  have d: "overlap_fs ''settings.json'' = Inr overlap_json"
    by (simp add: overlap_fs_def)
  have a: "kafka_section overlap_json ''connection''
      = Inr (JObj [(''bootstrap.servers'', JStr ''broker:9092''), (''client.id'', JStr ''base'')])"
    by (simp add: overlap_json_def kafka_section_def)
  have b: "kafka_section overlap_json ''consumer''
      = Inr (JObj [(''client.id'', JStr ''reader''), (''group.id'', JStr ''g'')])"
    by (simp add: overlap_json_def kafka_section_def)
  from consumer_cfg_consumer_wins [where fs = overlap_fs and path = "''settings.json''", OF d a b]
  obtain s where s: "init overlap_fs ''settings.json'' = Inr s"
      "consumer_cfg s = JObj (dict_or [(''bootstrap.servers'', JStr ''broker:9092''),
         (''client.id'', JStr ''base'')] [(''client.id'', JStr ''reader''), (''group.id'', JStr ''g'')])"
    by blast
  from s(2) have "getitem (consumer_cfg s) ''client.id'' = Inr (JStr ''reader'')"
    "getitem (consumer_cfg s) ''group.id'' = Inr (JStr ''g'')"
    "getitem (consumer_cfg s) ''bootstrap.servers'' = Inr (JStr ''broker:9092'')"
    "getitem (consumer_cfg s) ''acks'' = Inl (KeyError ''acks'')"
    by (simp_all add: dict_or_def)
  with d s(1) show ?thesis by blast
qed

subsection \<open>The polling loop\<close>

text \<open>
  C4. In every run of \<^verbatim>\<open>listen\<close>, whatever the hook, the library and the answers of
  the broker are: the messages handed to \<^verbatim>\<open>process_event\<close> are exactly the polled
  messages whose error is \<^verbatim>\<open>None\<close>, each once and in the order they were polled; the
  errors printed are exactly the errors of the other polled messages, in order; and
  the polled messages are an initial part of the messages the broker had to give.
\<close>

theorem listen_forwards_messages:
  "case listen k h s topic polls of (es, s', out) \<Rightarrow>
     handled es = filter (\<lambda>m. msg_error m = None) (polled es) \<and>
     logged es = List.map_filter msg_error (polled es) \<and>
     prefix (polled es) (messages polls)"
proof -
  obtain es s' out
    where l: "listen_loop k h (s\<lparr>consumer := Some (consumer_cfg s)\<rparr>) polls = (es, s', out)"
    by (cases "listen_loop k h (s\<lparr>consumer := Some (consumer_cfg s)\<rparr>) polls") auto
  from listen_loop_reads [where k = k and h = h and polls = polls
      and s = "s\<lparr>consumer := Some (consumer_cfg s)\<rparr>"] l
  show ?thesis
    by (simp add: listen_def after_def split: option.splits sum.splits)
qed

text \<open>A run with the default hook: the timeout and the failed message are not handed
  over, the first good message is, and since the default hook stops the instance the
  second good message is never polled.\<close>

theorem listen_forwards_messages_witness:
  "listen kafka_ok process_event (synapse_of ''g'' ''topic-in'') ''in''
      [NoMessage, Message msg_failed, Message msg_hello, Message msg_hello] =
     ([Consumer (JObj [(''group.id'', JStr ''g'')]), subscribe [JStr ''topic-in''],
       consumer_poll 1 NoMessage,
       consumer_poll 1 (Message msg_failed), print (Err (KafkaError 3)),
       consumer_poll 1 (Message msg_hello),
       process_event_call msg_hello [print (Str ''hello''), sleep 10],
       close],
      (synapse_of ''g'' ''topic-in'')
        \<lparr>consumer := Some (JObj [(''group.id'', JStr ''g'')]), close_consumer := True\<rparr>,
      Raises SystemExit) \<and>
   handled (fst (listen kafka_ok process_event (synapse_of ''g'' ''topic-in'') ''in''
      [NoMessage, Message msg_failed, Message msg_hello, Message msg_hello])) = [msg_hello]"
  using listen_forwards_messages [where k = kafka_ok and h = process_event
      and s = "synapse_of ''g'' ''topic-in''" and topic = "''in''"
      and polls = "[NoMessage, Message msg_failed, Message msg_hello, Message msg_hello]"]
  by (simp add: listen_def listen_loop.simps after_def topic_of_def kafka_section_def
      synapse_of_def kafka_ok_def msg_hello_def msg_failed_def process_event_def stop_def
      decode_def)

text \<open>
  C5. An iteration of the loop that begins with the flag set makes one call,
  \<^verbatim>\<open>consumer.close()\<close>, and ends \<^verbatim>\<open>listen\<close> by raising \<^verbatim>\<open>SystemExit\<close> (or the exception of
  \<^verbatim>\<open>close\<close>, should it raise): it polls nothing and hands nothing to the hook,
  whatever the broker still has. \<^verbatim>\<open>stop()\<close> does nothing but set the flag, so this
  holds for the state that \<^verbatim>\<open>stop()\<close> leaves.
\<close>

theorem stop_closes_before_poll:
  "(close_consumer s \<longrightarrow>
      listen_loop k h s polls =
        ([close], s, Raises (case k close of Some e \<Rightarrow> e | None \<Rightarrow> SystemExit))) \<and>
   (case stop s of (es, s', out) \<Rightarrow>
      es = [] \<and> out = Returns \<and> close_consumer s' \<and>
      listen_loop k h s' polls =
        ([close], s', Raises (case k close of Some e \<Rightarrow> e | None \<Rightarrow> SystemExit)))"
  by (simp add: stop_def listen_loop_stopped)

text \<open>With a good message waiting at the broker.\<close>

theorem stop_closes_before_poll_witness:
  "close_consumer ((synapse_of ''g'' ''topic-in'')\<lparr>close_consumer := True\<rparr>) \<and>
   listen_loop kafka_ok process_event ((synapse_of ''g'' ''topic-in'')\<lparr>close_consumer := True\<rparr>)
       [Message msg_hello] =
     ([close], (synapse_of ''g'' ''topic-in'')\<lparr>close_consumer := True\<rparr>, Raises SystemExit) \<and>
   stop (synapse_of ''g'' ''topic-in'') =
     ([], (synapse_of ''g'' ''topic-in'')\<lparr>close_consumer := True\<rparr>, Returns)"
  using stop_closes_before_poll [where k = kafka_ok and h = process_event
      and s = "(synapse_of ''g'' ''topic-in'')\<lparr>close_consumer := True\<rparr>"
      and polls = "[Message msg_hello]"]
  by (simp add: kafka_ok_def stop_def)

text \<open>
  C9 (as amended). The default \<^verbatim>\<open>process_event\<close> on any message: when the payload is
  present and is well-formed UTF-8 it prints the payload as text, sleeps 10 seconds
  and calls \<^verbatim>\<open>stop()\<close>, returning with the flag set and nothing else changed; when the
  payload is not well-formed UTF-8 it raises \<^verbatim>\<open>UnicodeDecodeError\<close>, and when there is no
  payload \<^verbatim>\<open>AttributeError\<close>, in both cases before it prints, sleeps or stops. The
  broker error of the message plays no part.
\<close>

theorem default_process_event:
  "process_event s m =
     (case msg_value m of
        None \<Rightarrow> ([], s, Raises AttributeError)
      | Some b \<Rightarrow>
          (if utf8 (map of_char b)
           then ([print (Str b), sleep 10], fst (snd (stop s)), Returns)
           else ([], s, Raises UnicodeDecodeError))) \<and>
   stop s = ([], s\<lparr>close_consumer := True\<rparr>, Returns)"
  by (simp add: process_event_def decode_def stop_def split: option.splits)

text \<open>On the message with payload \<^verbatim>\<open>hello\<close>.\<close>

theorem default_process_event_witness:
  "msg_value msg_hello = Some ''hello'' \<and> utf8 (map of_char ''hello'') \<and>
   process_event (synapse_of ''g'' ''topic-in'') msg_hello =
     ([print (Str ''hello''), sleep 10],
      (synapse_of ''g'' ''topic-in'')\<lparr>close_consumer := True\<rparr>, Returns)"
  using default_process_event [of "synapse_of ''g'' ''topic-in''" msg_hello]
  by (simp add: msg_hello_def stop_def)

text \<open>A message without broker error whose payload is not UTF-8: the hook raises, and
  nothing is printed, no delay is made and the instance is not stopped.\<close>

theorem default_process_event_undecodable:
  "msg_error msg_garbled = None \<and> msg_value msg_garbled = Some [CHR 0xFF] \<and>
   process_event (synapse_of ''g'' ''topic-in'') msg_garbled =
     ([], synapse_of ''g'' ''topic-in'', Raises UnicodeDecodeError)"
  by (simp add: msg_garbled_def process_event_def decode_def)

subsection \<open>The shutdown flag\<close>

text \<open>
  C10 (as amended). The flag is \<^verbatim>\<open>False\<close> after construction, \<^verbatim>\<open>stop()\<close> sets it, and
  \<^verbatim>\<open>send\<close>, \<^verbatim>\<open>reload\<close>, the default \<^verbatim>\<open>process_event\<close> and \<^verbatim>\<open>listen\<close> (with any hook) leave
  a set flag set. Hence a \<^verbatim>\<open>listen\<close> on an instance with the flag set polls no message
  and hands none to the hook; and when its set-up succeeds (the consumer opens, the
  topic name resolves and \<^verbatim>\<open>subscribe\<close> does not raise) it opens the consumer,
  subscribes, closes the consumer at the top of the first iteration and ends with
  \<^verbatim>\<open>SystemExit\<close> (or the exception of \<^verbatim>\<open>close\<close>).
\<close>

theorem close_consumer_monotone:
  "(init fs path = Inr s0 \<longrightarrow> \<not> close_consumer s0) \<and>
   close_consumer (fst (snd (stop s))) \<and>
   (close_consumer s \<longrightarrow>
      close_consumer (fst (snd (send k s topic event_bytes))) \<and>
      close_consumer (fst (snd (reload fs s))) \<and>
      close_consumer (fst (snd (process_event s m))) \<and>
      close_consumer (fst (snd (listen k h s topic polls))) \<and>
      polled (fst (listen k h s topic polls)) = [] \<and>
      handled (fst (listen k h s topic polls)) = [] \<and>
      (k (Consumer (consumer_cfg s)) = None \<and> topic_of (settings s) topic = Inr t \<and>
       k (subscribe [t]) = None \<longrightarrow>
         listen k h s topic polls =
           ([Consumer (consumer_cfg s), subscribe [t], close],
            s\<lparr>consumer := Some (consumer_cfg s)\<rparr>,
            Raises (case k close of Some e \<Rightarrow> e | None \<Rightarrow> SystemExit))))"
proof -
  have i: "init fs path = Inr s0 \<longrightarrow> \<not> close_consumer s0"
    by (auto simp: init_def split: sum.splits)
  have st: "close_consumer (fst (snd (stop s)))"
    by (simp add: stop_def)
  have se: "close_consumer s \<longrightarrow> close_consumer (fst (snd (send k s topic event_bytes)))"
    by (simp add: send_def split: sum.splits option.splits)
  have re: "close_consumer s \<longrightarrow> close_consumer (fst (snd (reload fs s)))"
    by (simp add: reload_def split: sum.splits)
  have pe: "close_consumer s \<longrightarrow> close_consumer (fst (snd (process_event s m)))"
    by (simp add: process_event_def stop_def split: sum.splits option.splits)
  have li: "close_consumer s \<longrightarrow>
      close_consumer (fst (snd (listen k h s topic polls))) \<and>
      polled (fst (listen k h s topic polls)) = [] \<and>
      handled (fst (listen k h s topic polls)) = []"
    by (simp add: listen_def listen_loop_stopped after_def split: sum.splits option.splits)
  have lo: "close_consumer s \<longrightarrow>
      (k (Consumer (consumer_cfg s)) = None \<and> topic_of (settings s) topic = Inr t \<and>
       k (subscribe [t]) = None \<longrightarrow>
         listen k h s topic polls =
           ([Consumer (consumer_cfg s), subscribe [t], close],
            s\<lparr>consumer := Some (consumer_cfg s)\<rparr>,
            Raises (case k close of Some e \<Rightarrow> e | None \<Rightarrow> SystemExit)))"
    by (simp add: listen_def listen_loop_stopped after_def)
  from i st se re pe li lo show ?thesis by blast
qed

text \<open>On the instance of the scenario after \<^verbatim>\<open>stop()\<close>, with a good message waiting.\<close>

theorem close_consumer_monotone_witness:
  "init (settings_fs ''g'' ''topic-in'') ''settings.json'' = Inr (synapse_of ''g'' ''topic-in'') \<and>
   \<not> close_consumer (synapse_of ''g'' ''topic-in'') \<and>
   close_consumer (fst (snd (stop (synapse_of ''g'' ''topic-in'')))) \<and>
   kafka_ok (Consumer (consumer_cfg (fst (snd (stop (synapse_of ''g'' ''topic-in'')))))) = None \<and>
   topic_of (settings (fst (snd (stop (synapse_of ''g'' ''topic-in''))))) ''in''
     = Inr (JStr ''topic-in'') \<and>
   kafka_ok (subscribe [JStr ''topic-in'']) = None \<and>
   listen kafka_ok process_event (fst (snd (stop (synapse_of ''g'' ''topic-in'')))) ''in''
       [Message msg_hello] =
     ([Consumer (JObj [(''group.id'', JStr ''g'')]), subscribe [JStr ''topic-in''], close],
      (synapse_of ''g'' ''topic-in'')
        \<lparr>consumer := Some (JObj [(''group.id'', JStr ''g'')]), close_consumer := True\<rparr>,
      Raises SystemExit)"
proof -
  let ?s = "fst (snd (stop (synapse_of ''g'' ''topic-in'')))"
  have i: "init (settings_fs ''g'' ''topic-in'') ''settings.json''
      = Inr (synapse_of ''g'' ''topic-in'')"
    by (rule init_example)
  have c: "close_consumer ?s" by (simp add: stop_def)
  have 1: "kafka_ok (Consumer (consumer_cfg ?s)) = None" by (simp add: kafka_ok_def)
  have 2: "topic_of (settings ?s) ''in'' = Inr (JStr ''topic-in'')"
    by (simp add: stop_def synapse_of_def topic_of_def kafka_section_def)
  have 3: "kafka_ok (subscribe [JStr ''topic-in'']) = None" by (simp add: kafka_ok_def)
  from close_consumer_monotone [where fs = "settings_fs ''g'' ''topic-in''"
      and path = "''settings.json''" and ?s0.0 = "synapse_of ''g'' ''topic-in''"
      and s = ?s and k = kafka_ok and h = process_event and topic = "''in''"
      and t = "JStr ''topic-in''" and polls = "[Message msg_hello]"] i c 1 2 3
  show ?thesis
    by (simp add: stop_def synapse_of_def kafka_ok_def)
qed

text \<open>After \<^verbatim>\<open>stop()\<close>, a \<^verbatim>\<open>listen\<close> on a name that \<^verbatim>\<open>kafka.topics\<close> does not have opens a
  consumer and raises \<^verbatim>\<open>KeyError\<close> before the loop: the consumer it opened is not
  closed.\<close>

theorem listen_unknown_topic_after_stop:
  "close_consumer (fst (snd (stop (synapse_of ''g'' ''topic-in'')))) \<and>
   listen kafka_ok process_event (fst (snd (stop (synapse_of ''g'' ''topic-in'')))) ''nope''
       [Message msg_hello] =
     ([Consumer (JObj [(''group.id'', JStr ''g'')])],
      (synapse_of ''g'' ''topic-in'')
        \<lparr>consumer := Some (JObj [(''group.id'', JStr ''g'')]), close_consumer := True\<rparr>,
      Raises (KeyError ''nope'')) \<and>
   close \<notin> set (fst (listen kafka_ok process_event
       (fst (snd (stop (synapse_of ''g'' ''topic-in'')))) ''nope'' [Message msg_hello]))"
  by (simp add: stop_def synapse_of_def kafka_ok_def listen_def topic_of_def kafka_section_def)

end
